theory Spec2Isabelle
  imports Complex_Main "HOL-Library.Word"
begin

section \<open>Python values and exceptions\<close>

text \<open>
  The script \<^verbatim>\<open>packages/backend/src/scripts/stt.py\<close> is glue code around three
  libraries: the standard \<^verbatim>\<open>wave\<close> and \<^verbatim>\<open>json\<close> modules and the Vosk speech
  recogniser. The libraries are not part of the repository; they enter the model as the
  fields of a record \<open>world\<close>, and every call into them is written as the source writes it.

  A Python \<^verbatim>\<open>str\<close> is a \<open>string\<close>: the list of its code points, for code points below
  256. A \<^verbatim>\<open>bytes\<close> object is a list of 8-bit words.
\<close>

type_synonym bytes = "8 word list"

text \<open>
  An exception is an instance of \<^verbatim>\<open>Exception\<close>, kept as the text \<^verbatim>\<open>str(e)\<close> gives for
  it. Every exception the called libraries raise synchronously derives from
  \<^verbatim>\<open>Exception\<close> (\<^verbatim>\<open>wave.Error\<close>, \<^verbatim>\<open>OSError\<close>, \<^verbatim>\<open>EOFError\<close>, \<^verbatim>\<open>json.JSONDecodeError\<close>,
  Vosk's plain \<^verbatim>\<open>Exception\<close>, \<^verbatim>\<open>AttributeError\<close>, \<^verbatim>\<open>TypeError\<close>, \<^verbatim>\<open>KeyError\<close>);
  asynchronous signals (\<^verbatim>\<open>KeyboardInterrupt\<close>) are outside this sequential model.
\<close>

datatype exn = Exception (str_of: string)

text \<open>What \<^verbatim>\<open>json.loads\<close> can return. A float is kept as the real number it denotes.\<close>

datatype pyval =
    PNone
  | PBool bool
  | PInt int
  | PFloat real
  | PStr string
  | PList "pyval list"
  | PDict "(string \<times> pyval) list"

text \<open>The name \<^verbatim>\<open>type(v).__name__\<close> that Python's error messages print.\<close>

fun type_name :: "pyval \<Rightarrow> string" where
  "type_name PNone = ''NoneType''"
| "type_name (PBool _) = ''bool''"
| "type_name (PInt _) = ''int''"
| "type_name (PFloat _) = ''float''"
| "type_name (PStr _) = ''str''"
| "type_name (PList _) = ''list''"
| "type_name (PDict _) = ''dict''"

text \<open>Truth value testing, as \<^verbatim>\<open>if v:\<close> does it.\<close>

fun truthy :: "pyval \<Rightarrow> bool" where
  "truthy PNone = False"
| "truthy (PBool b) = b"
| "truthy (PInt i) = (i \<noteq> 0)"
| "truthy (PFloat r) = (r \<noteq> 0)"
| "truthy (PStr s) = (s \<noteq> [])"
| "truthy (PList xs) = (xs \<noteq> [])"
| "truthy (PDict kvs) = (kvs \<noteq> [])"

text \<open>A name between single quotes, as error messages print it.\<close>

definition squote :: "string \<Rightarrow> string" where
  "squote s = [CHR 0x27] @ s @ [CHR 0x27]"

text \<open>
  \<^verbatim>\<open>v.get(key)\<close>: only a dict has the method; on a dict a missing key gives \<^verbatim>\<open>None\<close>.
\<close>

fun py_get :: "pyval \<Rightarrow> string \<Rightarrow> exn + pyval" where
  "py_get (PDict kvs) key = Inr (case map_of kvs key of None \<Rightarrow> PNone | Some v \<Rightarrow> v)"
| "py_get v key =
     Inl (Exception (squote (type_name v) @ '' object has no attribute '' @ squote ''get''))"

text \<open>
  \<^verbatim>\<open>v[key]\<close> with a string key: a dict raises \<^verbatim>\<open>KeyError\<close> on a missing key (its text
  is the \<^verbatim>\<open>repr\<close> of the key); the other types raise \<^verbatim>\<open>TypeError\<close>. The script only
  subscripts a value on which \<^verbatim>\<open>get\<close> has just found the key.
\<close>

fun py_getitem :: "pyval \<Rightarrow> string \<Rightarrow> exn + pyval" where
  "py_getitem (PDict kvs) key =
     (case map_of kvs key of
        None \<Rightarrow> Inl (Exception (squote key))
      | Some v \<Rightarrow> Inr v)"
| "py_getitem (PList xs) key =
     Inl (Exception ''list indices must be integers or slices, not str'')"
| "py_getitem (PStr s) key =
     Inl (Exception (''string indices must be integers, not '' @ squote ''str''))"
| "py_getitem v key =
     Inl (Exception (squote (type_name v) @ '' object is not subscriptable''))"

text \<open>Decimal digits of a natural number, for the index in an error message.\<close>

fun str_nat :: "nat \<Rightarrow> string" where
  "str_nat n =
     (if n < 10 then [''0123456789'' ! n]
      else str_nat (n div 10) @ [''0123456789'' ! (n mod 10)])"

text \<open>\<^verbatim>\<open>sep.join(xs)\<close> on strings.\<close>

fun join :: "string \<Rightarrow> string list \<Rightarrow> string" where
  "join sep [] = []"
| "join sep [x] = x"
| "join sep (x # y # ys) = x @ sep @ join sep (y # ys)"

text \<open>
  \<^verbatim>\<open>sep.join(vs)\<close> on a list of arbitrary values: the first item that is not a
  \<^verbatim>\<open>str\<close> raises \<^verbatim>\<open>TypeError\<close>, naming its index and its type.
\<close>

fun strs_from :: "nat \<Rightarrow> pyval list \<Rightarrow> exn + string list" where
  "strs_from i [] = Inr []"
| "strs_from i (PStr s # vs) =
     (case strs_from (Suc i) vs of Inl e \<Rightarrow> Inl e | Inr ss \<Rightarrow> Inr (s # ss))"
| "strs_from i (v # vs) =
     Inl (Exception (''sequence item '' @ str_nat i @ '': expected str instance, ''
                     @ type_name v @ '' found''))"

definition py_join :: "string \<Rightarrow> pyval list \<Rightarrow> exn + string" where
  "py_join sep vs = (case strs_from 0 vs of Inl e \<Rightarrow> Inl e | Inr ss \<Rightarrow> Inr (join sep ss))"

text \<open>
  \<^verbatim>\<open>s.strip()\<close>: the white space of \<^verbatim>\<open>str.isspace\<close> below code point 256 is removed
  from both ends.
\<close>

definition isspace :: "char \<Rightarrow> bool" where
  "isspace c =
     (let n = (of_char c :: nat)
      in (9 \<le> n \<and> n \<le> 13) \<or> (28 \<le> n \<and> n \<le> 32) \<or> n = 133 \<or> n = 160)"

definition strip :: "string \<Rightarrow> string" where
  "strip s = rev (dropWhile isspace (rev (dropWhile isspace s)))"

section \<open>The result dictionary and its JSON text\<close>

text \<open>
  The dictionaries the script builds hold a \<^verbatim>\<open>bool\<close> or a \<^verbatim>\<open>str\<close> under each key. A dict
  literal is the list of its items in insertion order, which is the order \<^verbatim>\<open>json.dumps\<close>
  prints them in.
\<close>

datatype jval = JBool bool | JStr string

type_synonym result = "(string \<times> jval) list"

text \<open>
  \<^verbatim>\<open>json.dumps\<close> with its default options (\<^verbatim>\<open>ensure_ascii=True\<close>, separators
  \<^verbatim>\<open>", "\<close> and \<^verbatim>\<open>": "\<close>), on these dictionaries.
\<close>

definition hex2 :: "nat \<Rightarrow> string" where
  "hex2 n = [''0123456789abcdef'' ! (n div 16 mod 16), ''0123456789abcdef'' ! (n mod 16)]"

definition escape_char :: "char \<Rightarrow> string" where
  "escape_char c =
     (if c = CHR 0x22 then [CHR 0x5C, CHR 0x22]
      else if c = CHR 0x5C then [CHR 0x5C, CHR 0x5C]
      else if c = CHR 0x0A then [CHR 0x5C, CHR ''n'']
      else if c = CHR 0x0D then [CHR 0x5C, CHR ''r'']
      else if c = CHR 0x09 then [CHR 0x5C, CHR ''t'']
      else if c = CHR 0x08 then [CHR 0x5C, CHR ''b'']
      else if c = CHR 0x0C then [CHR 0x5C, CHR ''f'']
      else if 32 \<le> (of_char c :: nat) \<and> (of_char c :: nat) \<le> 126 then [c]
      else [CHR 0x5C, CHR ''u'', CHR ''0'', CHR ''0''] @ hex2 (of_char c))"

definition dumps_str :: "string \<Rightarrow> string" where
  "dumps_str s = [CHR 0x22] @ concat (map escape_char s) @ [CHR 0x22]"

fun dumps_jval :: "jval \<Rightarrow> string" where
  "dumps_jval (JBool b) = (if b then ''true'' else ''false'')"
| "dumps_jval (JStr s) = dumps_str s"

definition json_dumps :: "result \<Rightarrow> string" where
  "json_dumps d =
     ''{'' @ join '', '' (map (\<lambda>(k, v). dumps_str k @ '': '' @ dumps_jval v) d) @ ''}''"

section \<open>The libraries\<close>

text \<open>
  An open \<^verbatim>\<open>wave.Wave_read\<close> object: the header fields the script asks for, the audio
  bytes not read yet, and the error (if any) that reading the underlying file raises.
\<close>

record wave_read =
  nchannels :: nat
  sampwidth :: nat
  framerate :: nat
  frames :: bytes
  fault :: "exn option"

text \<open>
  \<^verbatim>\<open>wf.readframes(n)\<close> (the object is \<open>wv\<close> here: \<open>wf\<close> is a constant of HOL) reads
  up to \<open>n\<close> frames of \<open>nchannels * sampwidth\<close> bytes each: that many bytes when the data
  holds them, what is left otherwise.
\<close>

definition readframes :: "wave_read \<Rightarrow> nat \<Rightarrow> exn + (bytes \<times> wave_read)" where
  "readframes wv n =
     (let nbytes = n * (nchannels wv * sampwidth wv)
      in case fault wv of
           Some e \<Rightarrow> Inl e
         | None \<Rightarrow> Inr (take nbytes (frames wv), wv\<lparr>frames := drop nbytes (frames wv)\<rparr>))"

text \<open>
  The environment of one run: the file system, the \<^verbatim>\<open>wave\<close> and \<^verbatim>\<open>json\<close> modules and
  Vosk. \<open>'m\<close> is a loaded model, \<open>'r\<close> the state of a recogniser; a call that can raise
  returns a sum, \<open>Inl\<close> the exception.
\<close>

record ('m, 'r) world =
  expanduser :: "string \<Rightarrow> string"
  path_exists :: "string \<Rightarrow> bool"
  Model :: "string \<Rightarrow> exn + 'm"
  wave_open :: "string \<Rightarrow> exn + wave_read"
  KaldiRecognizer :: "'m \<Rightarrow> nat \<Rightarrow> exn + 'r"
  SetWords :: "'r \<Rightarrow> bool \<Rightarrow> exn + 'r"
  AcceptWaveform :: "'r \<Rightarrow> bytes \<Rightarrow> exn + (int \<times> 'r)"
  Result :: "'r \<Rightarrow> exn + (string \<times> 'r)"
  FinalResult :: "'r \<Rightarrow> exn + (string \<times> 'r)"
  json_loads :: "string \<Rightarrow> exn + pyval"

section \<open>Effects\<close>

text \<open>
  What a run leaves behind: the calls it made into the environment, in order; the
  handles it acquired and has not released by a call; the lines it printed.
\<close>

datatype call =
    Exists string
  | ModelNew string
  | WaveOpen string
  | GetNChannels
  | GetFrameRate
  | RecognizerNew nat
  | SetWordsCall bool
  | ReadFrames nat
  | AcceptWaveformCall bytes
  | ResultCall
  | FinalResultCall
  | CloseCall

datatype handle = ModelHandle | WaveHandle | RecognizerHandle

record st =
  calls :: "call list"
  held :: "handle list"
  stdout :: "string list"

type_synonym 'a py = "st \<Rightarrow> (exn + 'a) \<times> st"

definition ret :: "'a \<Rightarrow> 'a py" where
  "ret x s = (Inr x, s)"

definition bnd :: "'a py \<Rightarrow> ('a \<Rightarrow> 'b py) \<Rightarrow> 'b py" where
  "bnd m f s = (case m s of (Inl e, s') \<Rightarrow> (Inl e, s') | (Inr x, s') \<Rightarrow> f x s')"

text \<open>A pure operation that may raise.\<close>

definition lift :: "exn + 'a \<Rightarrow> 'a py" where
  "lift r s = (r, s)"

text \<open>A call into the environment: it is recorded, then it returns or raises.\<close>

definition call :: "call \<Rightarrow> exn + 'a \<Rightarrow> 'a py" where
  "call c r s = (r, s\<lparr>calls := calls s @ [c]\<rparr>)"

text \<open>A constructor that returns holds a new handle; one that raises holds none.\<close>

definition acquiring :: "handle \<Rightarrow> 'a py \<Rightarrow> 'a py" where
  "acquiring h m s =
     (case m s of
        (Inl e, s') \<Rightarrow> (Inl e, s')
      | (Inr x, s') \<Rightarrow> (Inr x, s'\<lparr>held := h # held s'\<rparr>))"

definition releasing :: "handle \<Rightarrow> 'a py \<Rightarrow> 'a py" where
  "releasing h m s =
     (case m s of
        (Inl e, s') \<Rightarrow> (Inl e, s')
      | (Inr x, s') \<Rightarrow> (Inr x, s'\<lparr>held := remove1 h (held s')\<rparr>))"

text \<open>\<^verbatim>\<open>try: m except Exception as e: h(e)\<close>.\<close>

definition try_except :: "'a py \<Rightarrow> (exn \<Rightarrow> 'a py) \<Rightarrow> 'a py" where
  "try_except m h s = (case m s of (Inl e, s') \<Rightarrow> h e s' | (Inr x, s') \<Rightarrow> (Inr x, s'))"

definition print :: "string \<Rightarrow> unit py" where
  "print line s = (Inr (), s\<lparr>stdout := stdout s @ [line]\<rparr>)"

definition init :: st where
  "init = \<lparr>calls = [], held = [], stdout = []\<rparr>"

section \<open>The script\<close>

text \<open>
  \<^verbatim>\<open>MODEL_PATH = os.path.expanduser("~/.local/share/vosk/vosk-model-small-en-us-0.15")\<close>
\<close>

definition MODEL_PATH :: "('m, 'r) world \<Rightarrow> string" where
  "MODEL_PATH w = expanduser w ''~/.local/share/vosk/vosk-model-small-en-us-0.15''"

text \<open>
  One pass through the body of \<^verbatim>\<open>while True:\<close> (lines 33 to 39). The flag returned is
  \<open>False\<close> when the body reached \<^verbatim>\<open>break\<close>.
\<close>

definition loop_body ::
  "('m, 'r) world \<Rightarrow> wave_read \<Rightarrow> 'r \<Rightarrow> pyval list \<Rightarrow> (bool \<times> wave_read \<times> 'r \<times> pyval list) py"
where
  "loop_body w wv rec results =
     bnd (call (ReadFrames 4000) (readframes wv 4000)) (\<lambda>(data, wv).
     if length data = 0 then ret (False, wv, rec, results)
     else
     bnd (call (AcceptWaveformCall data) (AcceptWaveform w rec data)) (\<lambda>(accepted, rec).
     if accepted \<noteq> 0 then
       bnd (call ResultCall (Result w rec)) (\<lambda>(txt, rec).
       bnd (lift (json_loads w txt)) (\<lambda>result.
       bnd (lift (py_get result ''text'')) (\<lambda>t.
       if truthy t then
         bnd (lift (py_getitem result ''text'')) (\<lambda>item.
         ret (True, wv, rec, results @ [item]))
       else ret (True, wv, rec, results))))
     else ret (True, wv, rec, results)))"

function read_loop ::
  "('m, 'r) world \<Rightarrow> wave_read \<Rightarrow> 'r \<Rightarrow> pyval list \<Rightarrow> (wave_read \<times> 'r \<times> pyval list) py"
where
  "read_loop w wv rec results s =
     (case loop_body w wv rec results s of
        (Inl e, s') \<Rightarrow> (Inl e, s')
      | (Inr (again, wv', rec', results'), s') \<Rightarrow>
          if again then read_loop w wv' rec' results' s'
          else (Inr (wv', rec', results'), s'))"
  by pat_completeness auto
termination
  by (relation "measure (\<lambda>(w, wv, rec, results, s). length (frames wv))")
     (auto simp: loop_body_def bnd_def call_def lift_def ret_def readframes_def Let_def
           split: if_splits sum.splits prod.splits option.splits)

declare read_loop.simps [simp del]

text \<open>The body of the \<^verbatim>\<open>try\<close> statement of \<^verbatim>\<open>transcribe_audio\<close> (lines 18 to 49).\<close>

definition transcribe_try :: "('m, 'r) world \<Rightarrow> string \<Rightarrow> result py" where
  "transcribe_try w audio_path =
     bnd (call (Exists (MODEL_PATH w)) (Inr (path_exists w (MODEL_PATH w)))) (\<lambda>found.
     if \<not> found then ret [(''success'', JBool False), (''error'', JStr ''Vosk model not found'')]
     else
     bnd (acquiring ModelHandle (call (ModelNew (MODEL_PATH w)) (Model w (MODEL_PATH w)))) (\<lambda>model.
     bnd (acquiring WaveHandle (call (WaveOpen audio_path) (wave_open w audio_path))) (\<lambda>wv.
     bnd (call GetNChannels (Inr (nchannels wv))) (\<lambda>n.
     if n \<noteq> 1 then ret [(''success'', JBool False), (''error'', JStr ''Audio must be mono'')]
     else
     bnd (call GetFrameRate (Inr (framerate wv))) (\<lambda>rate.
     bnd (acquiring RecognizerHandle
            (call (RecognizerNew rate) (KaldiRecognizer w model rate))) (\<lambda>rec.
     bnd (call (SetWordsCall True) (SetWords w rec True)) (\<lambda>rec.
     bnd (read_loop w wv rec []) (\<lambda>(wv, rec, results).
     bnd (call FinalResultCall (FinalResult w rec)) (\<lambda>(txt, rec).
     bnd (lift (json_loads w txt)) (\<lambda>final.
     bnd (lift (py_get final ''text'')) (\<lambda>t.
     bnd (if truthy t
          then bnd (lift (py_getitem final ''text'')) (\<lambda>item. ret (results @ [item]))
          else ret results) (\<lambda>results.
     bnd (releasing WaveHandle (call CloseCall (Inr ()))) (\<lambda>_.
     bnd (lift (py_join '' '' results)) (\<lambda>joined.
     ret [(''success'', JBool True), (''text'', JStr (strip joined))]))))))))))))))"

text \<open>\<^verbatim>\<open>def transcribe_audio(audio_path: str) -> dict\<close>\<close>

definition transcribe_audio :: "('m, 'r) world \<Rightarrow> string \<Rightarrow> result py" where
  "transcribe_audio w audio_path =
     try_except (transcribe_try w audio_path)
       (\<lambda>e. ret [(''success'', JBool False), (''error'', JStr (str_of e))])"

text \<open>
  The \<^verbatim>\<open>__main__\<close> block (lines 54 to 66), on the list \<^verbatim>\<open>sys.argv\<close>. It returns the
  exit status of the process: the argument of \<^verbatim>\<open>sys.exit\<close>, or 0 at the end of the
  script. An exception that leaves it (\<open>Inl\<close>) would end the process with a traceback.
\<close>

definition main :: "('m, 'r) world \<Rightarrow> string list \<Rightarrow> nat py" where
  "main w argv =
     (if length argv \<noteq> 2 then
        bnd (print (json_dumps
               [(''success'', JBool False), (''error'', JStr ''Usage: stt.py <audio_file>'')]))
          (\<lambda>_. ret 1)
      else
        let audio_file = argv ! 1 in
        bnd (call (Exists audio_file) (Inr (path_exists w audio_file))) (\<lambda>found.
        if \<not> found then
          bnd (print (json_dumps
                 [(''success'', JBool False),
                  (''error'', JStr (''File not found: '' @ audio_file))]))
            (\<lambda>_. ret 1)
        else
          bnd (transcribe_audio w audio_file) (\<lambda>result.
          bnd (print (json_dumps result)) (\<lambda>_. ret 0))))"


section \<open>The shape of a result\<close>

text \<open>
  The invariant of the data model: a result has a boolean \<^verbatim>\<open>success\<close>, and holds
  \<^verbatim>\<open>text\<close> and no \<^verbatim>\<open>error\<close> when it is true, \<^verbatim>\<open>error\<close> and no \<^verbatim>\<open>text\<close> when it is false.
\<close>

definition has_key :: "result \<Rightarrow> string \<Rightarrow> bool" where
  "has_key d k = (map_of d k \<noteq> None)"

definition shape_ok :: "result \<Rightarrow> bool" where
  "shape_ok d =
     (case map_of d ''success'' of
        Some (JBool True) \<Rightarrow> has_key d ''text'' \<and> \<not> has_key d ''error''
      | Some (JBool False) \<Rightarrow> has_key d ''error'' \<and> \<not> has_key d ''text''
      | _ \<Rightarrow> False)"

section \<open>The transcript, in the words of the specification\<close>

text \<open>
  Steps 5 to 8 of the algorithm of the specification, written without the script's
  state: the audio data is cut into chunks of 4000 frames; each chunk is fed to the
  recogniser and, at an endpoint, the partial result is parsed and its text, if not
  empty, is a segment; the final flush gives the last segment; the transcript is the
  segments joined with single spaces and trimmed. \<open>None\<close> means that some step failed.
\<close>

fun chunks_of :: "nat \<Rightarrow> bytes \<Rightarrow> bytes list" where
  "chunks_of k [] = []"
| "chunks_of k (b # bs) =
     (if k = 0 then [] else take k (b # bs) # chunks_of k (drop k (b # bs)))"

text \<open>
  The segment a recogniser output contributes: its \<^verbatim>\<open>text\<close> when that is a non-empty
  string, nothing when \<^verbatim>\<open>text\<close> is absent or empty. An output that does not parse to an
  object, or whose \<^verbatim>\<open>text\<close> is a non-empty value of another type, is no recognition
  result.
\<close>

definition recognized_text :: "('m, 'r) world \<Rightarrow> string \<Rightarrow> string list option" where
  "recognized_text w txt =
     (case json_loads w txt of
        Inr (PDict kvs) \<Rightarrow>
          (case map_of kvs ''text'' of
             None \<Rightarrow> Some []
           | Some (PStr s) \<Rightarrow> Some (if s = [] then [] else [s])
           | Some v \<Rightarrow> if truthy v then None else Some [])
      | _ \<Rightarrow> None)"

fun spec_feed :: "('m, 'r) world \<Rightarrow> 'r \<Rightarrow> bytes list \<Rightarrow> (string list \<times> 'r) option" where
  "spec_feed w rec [] = Some ([], rec)"
| "spec_feed w rec (c # cs) =
     (case AcceptWaveform w rec c of
        Inl _ \<Rightarrow> None
      | Inr (accepted, rec1) \<Rightarrow>
          if accepted = 0 then spec_feed w rec1 cs
          else (case Result w rec1 of
                  Inl _ \<Rightarrow> None
                | Inr (txt, rec2) \<Rightarrow>
                    (case recognized_text w txt of
                       None \<Rightarrow> None
                     | Some seg \<Rightarrow>
                         (case spec_feed w rec2 cs of
                            None \<Rightarrow> None
                          | Some (segs, rec3) \<Rightarrow> Some (seg @ segs, rec3)))))"

text \<open>
  The accumulated segments of a whole run (steps 1 to 6): the model is there and loads,
  the file opens as mono audio that can be read, the recogniser is built, the chunks are
  fed, and the final flush comes last.
\<close>

definition spec_segments :: "('m, 'r) world \<Rightarrow> string \<Rightarrow> string list option" where
  "spec_segments w audio_path =
     (if \<not> path_exists w (MODEL_PATH w) then None
      else case Model w (MODEL_PATH w) of
        Inl _ \<Rightarrow> None
      | Inr model \<Rightarrow>
     (case wave_open w audio_path of
        Inl _ \<Rightarrow> None
      | Inr wv \<Rightarrow>
     if nchannels wv \<noteq> 1 \<or> fault wv \<noteq> None then None
     else case KaldiRecognizer w model (framerate wv) of
        Inl _ \<Rightarrow> None
      | Inr rec0 \<Rightarrow>
     (case SetWords w rec0 True of
        Inl _ \<Rightarrow> None
      | Inr rec1 \<Rightarrow>
     (case spec_feed w rec1 (chunks_of (4000 * sampwidth wv) (frames wv)) of
        None \<Rightarrow> None
      | Some (segs, rec2) \<Rightarrow>
     (case FinalResult w rec2 of
        Inl _ \<Rightarrow> None
      | Inr (txt, rec3) \<Rightarrow>
     (case recognized_text w txt of
        None \<Rightarrow> None
      | Some seg \<Rightarrow> Some (segs @ seg)))))))"

section \<open>Auxiliary notions\<close>

text \<open>The strings of a list of values, when all of them are strings.\<close>

fun strs :: "pyval list \<Rightarrow> string list option" where
  "strs [] = Some []"
| "strs (PStr s # vs) = map_option ((#) s) (strs vs)"
| "strs (v # vs) = None"

text \<open>
  How the list the read loop returns relates to the segments of the specification
  (\<open>F\<close>): the loop appends to its list, it fails exactly when \<open>F\<close> is \<open>None\<close> or an
  appended value is not a string, and otherwise the appended values are the segments.
\<close>

definition accum_rel ::
  "pyval list \<Rightarrow> (string list \<times> 'r) option \<Rightarrow> exn + (wave_read \<times> 'r \<times> pyval list) \<Rightarrow> bool"
where
  "accum_rel acc F r =
     (case r of
        Inl e \<Rightarrow> F = None
      | Inr (wv', rec', res) \<Rightarrow>
          \<exists>new. res = acc @ new \<and> F = map_option (\<lambda>ss. (ss, rec')) (strs new))"

section \<open>An example environment\<close>

text \<open>
  A small environment to run the script in. Every path exists but \<^verbatim>\<open>missing.wav\<close>; the
  model loads; \<^verbatim>\<open>speech.wav\<close> and \<^verbatim>\<open>silence.wav\<close> are mono files of 16-bit samples,
  \<^verbatim>\<open>stereo.wav\<close> has two channels, and any other file is not a WAV file. The recogniser
  counts the chunks that do not start with a zero byte, reports an utterance
  \<^verbatim>\<open>hello\<close> at each of them, and a last utterance \<^verbatim>\<open>world\<close> at the final flush when it
  has heard one.
\<close>

definition demo_loads :: "string \<Rightarrow> exn + pyval" where
  "demo_loads s =
     (if s = ''{\"text\": \"hello\"}'' then Inr (PDict [(''text'', PStr ''hello'')])
      else if s = ''{\"text\": \"world\"}'' then Inr (PDict [(''text'', PStr ''world'')])
      else if s = ''{\"text\": \"\"}'' then Inr (PDict [(''text'', PStr [])])
      else Inl (Exception ''Expecting value: line 1 column 1 (char 0)''))"

definition demo_wave :: "nat \<Rightarrow> bytes \<Rightarrow> wave_read" where
  "demo_wave n bs =
     \<lparr>nchannels = n, sampwidth = 2, framerate = 16000, frames = bs, fault = None\<rparr>"

definition demo_world :: "(unit, nat) world" where
  "demo_world =
     \<lparr>expanduser = (\<lambda>p. ''/home/pi'' @ tl p),
      path_exists = (\<lambda>p. p \<noteq> ''missing.wav''),
      Model = (\<lambda>p. Inr ()),
      wave_open = (\<lambda>p.
        if p = ''speech.wav'' then Inr (demo_wave 1 (replicate 8000 1 @ replicate 100 0))
        else if p = ''silence.wav'' then Inr (demo_wave 1 (replicate 12000 0))
        else if p = ''stereo.wav'' then Inr (demo_wave 2 (replicate 12000 0))
        else Inl (Exception ''file does not start with RIFF id'')),
      KaldiRecognizer = (\<lambda>m rate. Inr 0),
      SetWords = (\<lambda>r b. Inr r),
      AcceptWaveform = (\<lambda>r data. if hd data = 0 then Inr (0, r) else Inr (1, Suc r)),
      Result = (\<lambda>r. Inr (''{\"text\": \"hello\"}'', r)),
      FinalResult =
        (\<lambda>r. Inr (if r = 0 then ''{\"text\": \"\"}'' else ''{\"text\": \"world\"}'', r)),
      json_loads = demo_loads\<rparr>"

text \<open>The same environment without the model directory, and with one that does not load.\<close>

definition no_model_world :: "(unit, nat) world" where
  "no_model_world = demo_world\<lparr>path_exists := (\<lambda>p. p = ''speech.wav'' \<or> p = ''stereo.wav'')\<rparr>"

definition bad_model_world :: "(unit, nat) world" where
  "bad_model_world = demo_world\<lparr>Model := (\<lambda>p. Inl (Exception ''Failed to create a model''))\<rparr>"

section \<open>Lemmas\<close>

lemmas py_defs = Let_def bnd_def call_def lift_def ret_def acquiring_def releasing_def
  try_except_def print_def
lemmas demo_defs = demo_world_def no_model_world_def demo_wave_def
  demo_loads_def MODEL_PATH_def init_def
lemmas run_defs = transcribe_audio_def transcribe_try_def loop_body_def readframes_def 
  py_join_def strip_def isspace_def json_dumps_def dumps_str_def escape_char_def main_def

subsection \<open>What a run changes\<close>

lemma loop_body_keeps:
  "loop_body w wv rec rs s = (r, s') \<Longrightarrow> held s' = held s \<and> stdout s' = stdout s"
  by (auto simp: loop_body_def py_defs split: if_splits sum.splits prod.splits)

lemma read_loop_keeps:
  "read_loop w wv rec rs s = (r, s') \<Longrightarrow> held s' = held s \<and> stdout s' = stdout s"
proof (induction w wv rec rs s arbitrary: r s' rule: read_loop.induct)
  case (1 w wv rec results s)
  show ?case
  proof (cases "loop_body w wv rec results s")
    case (Pair a s1)
    note keep = loop_body_keeps[OF Pair]
    show ?thesis
    proof (cases a)
      case (Inl e)
      with Pair "1.prems" keep show ?thesis by (simp add: read_loop.simps)
    next
      case (Inr x)
      obtain again wv' rec' rs' where x: "x = (again, wv', rec', rs')" by (cases x) auto
      show ?thesis
      proof (cases again)
        case True
        with Pair Inr x "1.prems" have "read_loop w wv' rec' rs' s1 = (r, s')"
          by (simp add: read_loop.simps)
        have "held s' = held s1 \<and> stdout s' = stdout s1"
          by (rule "1.IH"[of a s1 x again "(wv', rec', rs')" wv' "(rec', rs')" rec' rs'])
             (use Pair Inr x True \<open>read_loop w wv' rec' rs' s1 = (r, s')\<close> in simp_all)
        with keep show ?thesis by simp
      next
        case False
        with Pair Inr x "1.prems" keep show ?thesis by (simp add: read_loop.simps)
      qed
    qed
  qed
qed

lemma transcribe_try_shape: "fst (transcribe_try w p s) = Inr d \<Longrightarrow> shape_ok d"
  by (auto simp: transcribe_try_def py_defs shape_ok_def has_key_def split: if_splits sum.splits prod.splits)

lemma transcribe_audio_returns: "\<exists>d s'. transcribe_audio w p s = (Inr d, s')"
  by (auto simp: transcribe_audio_def try_except_def ret_def split: prod.splits sum.splits)

lemma main_returns: "\<exists>n s'. main w argv s = (Inr n, s')"
proof (cases "length argv \<noteq> 2")
  case True
  then show ?thesis by (simp add: main_def bnd_def print_def ret_def)
next
  case two: False
  show ?thesis
  proof (cases "path_exists w (argv ! 1)")
    case False
    with two show ?thesis by (simp add: main_def bnd_def print_def ret_def call_def Let_def)
  next
    case True
    obtain d s2 where "transcribe_audio w (argv ! 1) (s\<lparr>calls := calls s @ [Exists (argv ! 1)]\<rparr>) = (Inr d, s2)"
      using transcribe_audio_returns by blast
    with two True show ?thesis by (simp add: main_def bnd_def print_def ret_def call_def Let_def)
  qed
qed

lemma transcribe_audio_shape: "fst (transcribe_audio w p s) = Inr d \<Longrightarrow> shape_ok d"
  using transcribe_try_shape[of w p s]
  by (auto simp: transcribe_audio_def try_except_def ret_def shape_ok_def has_key_def split: prod.splits sum.splits)

lemma transcribe_try_stdout: "stdout (snd (transcribe_try w p s)) = stdout s"
  by (auto simp: transcribe_try_def py_defs split: if_splits sum.splits prod.splits dest!: read_loop_keeps)

lemma transcribe_audio_stdout: "stdout (snd (transcribe_audio w p s)) = stdout s"
  using transcribe_try_stdout[of w p s]
  by (auto simp: transcribe_audio_def try_except_def ret_def split: prod.splits sum.splits)

subsection \<open>The read loop and the segments of the specification\<close>

lemma chunks_of_unfold:
  "chunks_of k bs = (if k = 0 \<or> bs = [] then [] else take k bs # chunks_of k (drop k bs))"
  by (cases bs) simp_all

lemma strs_eq:
  "strs vs = (case strs_from i vs of Inl _ \<Rightarrow> None | Inr ss \<Rightarrow> Some ss)"
  by (induction i vs rule: strs_from.induct) (auto split: sum.splits)

lemma strs_append:
  "strs (xs @ ys) = (case strs xs of None \<Rightarrow> None | Some a \<Rightarrow> map_option ((@) a) (strs ys))"
  by (induction xs rule: strs.induct) (auto split: option.splits simp: map_option_case)

text \<open>What one parsed output adds to the list, and the segment it is.\<close>

lemma recognized_text_eq:
  "recognized_text w txt =
     (case json_loads w txt of
        Inl e \<Rightarrow> None
      | Inr v \<Rightarrow> (case py_get v ''text'' of
           Inl e \<Rightarrow> None
         | Inr t \<Rightarrow> if truthy t then strs [t] else Some []))"
  by (simp add: recognized_text_def split: sum.splits pyval.splits option.splits)

lemma getitem_after_get:
  "py_get v key = Inr t \<Longrightarrow> truthy t \<Longrightarrow> py_getitem v key = Inr t"
  by (cases v) (auto split: option.splits)


lemma loop_body_result:
  "fault wv = None \<Longrightarrow>
   fst (loop_body w wv rec acc s) =
     (let k = 4000 * (nchannels wv * sampwidth wv);
          data = take k (frames wv);
          wv1 = wv\<lparr>frames := drop k (frames wv)\<rparr>
      in if data = [] then Inr (False, wv1, rec, acc)
         else case AcceptWaveform w rec data of
                Inl e \<Rightarrow> Inl e
              | Inr (a, rec1) \<Rightarrow>
                  if a = 0 then Inr (True, wv1, rec1, acc)
                  else (case Result w rec1 of
                          Inl e \<Rightarrow> Inl e
                        | Inr (txt, rec2) \<Rightarrow>
                            (case json_loads w txt of
                               Inl e \<Rightarrow> Inl e
                             | Inr v \<Rightarrow>
                                 (case py_get v ''text'' of
                                    Inl e \<Rightarrow> Inl e
                                  | Inr t \<Rightarrow>
                                      if truthy t then Inr (True, wv1, rec2, acc @ [t])
                                      else Inr (True, wv1, rec2, acc)))))"
  by (auto simp: loop_body_def readframes_def py_defs getitem_after_get
           split: sum.splits prod.splits)

lemma accum_rel_step:
  assumes "accum_rel (acc @ [t]) F' r"
    and "F = (case strs [t] of
                None \<Rightarrow> None
              | Some seg \<Rightarrow> (case F' of None \<Rightarrow> None | Some (segs, r3) \<Rightarrow> Some (seg @ segs, r3)))"
  shows "accum_rel acc F r"
proof (cases r)
  case (Inl e)
  with assms show ?thesis by (simp add: accum_rel_def split: option.splits)
next
  case (Inr x)
  obtain wv' rec' res where x: "x = (wv', rec', res)" by (cases x)
  from assms(1) Inr x obtain new where new: "res = (acc @ [t]) @ new"
    "F' = map_option (\<lambda>ss. (ss, rec')) (strs new)"
    by (auto simp: accum_rel_def)
  have "F = map_option (\<lambda>ss. (ss, rec')) (strs (t # new))"
    using assms(2) new(2) by (cases t; cases "strs new") simp_all
  with new(1) Inr x show ?thesis
    by (auto simp: accum_rel_def intro!: exI[of _ "t # new"])
qed

lemma read_loop_feed:
  "fault wv = None \<Longrightarrow>
   accum_rel acc
     (spec_feed w rec (chunks_of (4000 * (nchannels wv * sampwidth wv)) (frames wv)))
     (fst (read_loop w wv rec acc s))"
proof (induction "length (frames wv)" arbitrary: wv rec acc s rule: less_induct)
  case less
  define k where "k = 4000 * (nchannels wv * sampwidth wv)"
  define data where "data = take k (frames wv)"
  define wv1 where "wv1 = wv\<lparr>frames := drop k (frames wv)\<rparr>"
  have wv1: "fault wv1 = None" "4000 * (nchannels wv1 * sampwidth wv1) = k"
    "frames wv1 = drop k (frames wv)"
    using less.prems by (simp_all add: wv1_def k_def)
  have chunks: "chunks_of k (frames wv) = (if data = [] then [] else data # chunks_of k (frames wv1))"
    by (subst chunks_of_unfold) (auto simp: data_def wv1)
  have IH: "accum_rel acc' (spec_feed w rec' (chunks_of k (frames wv1)))
              (fst (read_loop w wv1 rec' acc' s'))" if "data \<noteq> []" for rec' acc' s'
  proof -
    from that have "length (frames wv1) < length (frames wv)"
      by (auto simp: wv1 data_def)
    then have "accum_rel acc'
        (spec_feed w rec' (chunks_of (4000 * (nchannels wv1 * sampwidth wv1)) (frames wv1)))
        (fst (read_loop w wv1 rec' acc' s'))"
      using wv1(1) by (rule less.hyps)
    then show ?thesis by (simp add: wv1)
  qed
  obtain r s1 where lb: "loop_body w wv rec acc s = (r, s1)"
    by (cases "loop_body w wv rec acc s")
  have rl: "fst (read_loop w wv rec acc s) =
      (case r of Inl e \<Rightarrow> Inl e
       | Inr (again, wv', rec', res') \<Rightarrow>
           if again then fst (read_loop w wv' rec' res' s1) else Inr (wv', rec', res'))"
    by (subst read_loop.simps) (simp add: lb split: sum.splits prod.splits)
  have r: "r = (if data = [] then Inr (False, wv1, rec, acc)
         else case AcceptWaveform w rec data of
                Inl e \<Rightarrow> Inl e
              | Inr (a, rec1) \<Rightarrow>
                  if a = 0 then Inr (True, wv1, rec1, acc)
                  else (case Result w rec1 of
                          Inl e \<Rightarrow> Inl e
                        | Inr (txt, rec2) \<Rightarrow>
                            (case json_loads w txt of
                               Inl e \<Rightarrow> Inl e
                             | Inr v \<Rightarrow>
                                 (case py_get v ''text'' of
                                    Inl e \<Rightarrow> Inl e
                                  | Inr t \<Rightarrow>
                                      if truthy t then Inr (True, wv1, rec2, acc @ [t])
                                      else Inr (True, wv1, rec2, acc)))))"
    unfolding data_def wv1_def k_def
    using loop_body_result[OF less.prems, of w rec acc s]
    by (simp only: lb fst_conv Let_def)
  show ?case
  proof (cases "data = []")
    case True
    with r rl chunks show ?thesis
      by (simp add: accum_rel_def k_def[symmetric])
  next
    case False
    note ne = False
    show ?thesis
    proof (cases "AcceptWaveform w rec data")
      case (Inl e)
      with r rl chunks ne show ?thesis
        by (simp add: accum_rel_def k_def[symmetric])
    next
      case (Inr ar)
      obtain a rec1 where ar: "ar = (a, rec1)" by (cases ar)
      show ?thesis
      proof (cases "a = 0")
        case True
        with r rl chunks ne Inr ar IH[OF ne, of acc rec1 s1] show ?thesis
          by (simp add: accum_rel_def k_def[symmetric] wv1 split: sum.splits prod.splits)
      next
        case False
        note nz = False
        show ?thesis
        proof (cases "Result w rec1")
          case (Inl e)
          with r rl chunks ne Inr ar nz show ?thesis
            by (simp add: accum_rel_def k_def[symmetric])
        next
          case res: (Inr tr)
          obtain out rec2 where tr: "tr = (out, rec2)" by (cases tr)
          show ?thesis
          proof (cases "json_loads w out")
            case (Inl e)
            with r rl chunks ne Inr ar nz res tr show ?thesis
              by (simp add: accum_rel_def k_def[symmetric] recognized_text_eq)
          next
            case js: (Inr v)
            show ?thesis
            proof (cases "py_get v ''text''")
              case (Inl e)
              with r rl chunks ne Inr ar nz res tr js show ?thesis
                by (simp add: accum_rel_def k_def[symmetric] recognized_text_eq)
            next
              case g: (Inr t)
              show ?thesis
              proof (cases "truthy t")
                case True
                have "accum_rel (acc @ [t]) (spec_feed w rec2 (chunks_of k (frames wv1)))
                        (fst (read_loop w wv rec acc s))"
                  using True r rl ne Inr ar nz res tr js g IH[OF ne, of "acc @ [t]" rec2 s1]
                  by (simp add: wv1)
                moreover have "spec_feed w rec (chunks_of k (frames wv)) =
                    (case strs [t] of
                       None \<Rightarrow> None
                     | Some seg \<Rightarrow>
                         (case spec_feed w rec2 (chunks_of k (frames wv1)) of
                            None \<Rightarrow> None
                          | Some (segs, r3) \<Rightarrow> Some (seg @ segs, r3)))"
                  using True chunks ne Inr ar nz res tr js g
                  by (simp add: recognized_text_eq)
                ultimately show ?thesis
                  unfolding k_def[symmetric] by (rule accum_rel_step)
              next
                case False
                with r rl chunks ne Inr ar nz res tr js g IH[OF ne, of acc rec2 s1]
                show ?thesis
                  by (auto simp: accum_rel_def k_def[symmetric] wv1 recognized_text_eq
                       split: sum.splits prod.splits option.splits)
              qed
            qed
          qed
        qed
      qed
    qed
  qed
qed

lemma read_loop_accum:
  "read_loop w wv rec acc s = (r, s') \<Longrightarrow> fault wv = None \<Longrightarrow> 
   accum_rel acc (spec_feed w rec (chunks_of (4000 * (nchannels wv * sampwidth wv)) (frames wv))) r"
  using read_loop_feed[of wv acc w rec s] by simp

lemma read_loop_fault:
  "fault wv = Some e \<Longrightarrow> fst (read_loop w wv rec acc s) = Inl e"
  by (subst read_loop.simps) (simp add: loop_body_def readframes_def py_defs)

lemma py_join_strs:
  "py_join sep vs = Inr joined \<longleftrightarrow> (\<exists>ss. strs vs = Some ss \<and> joined = join sep ss)"
  by (auto simp: py_join_def strs_eq[of vs 0] split: sum.splits)

lemma success_segments: 
 assumes "transcribe_try w p s = (Inr [(''success'', JBool True), (''text'', JStr t)], s')"
 shows "\<exists>segs. spec_segments w p = Some segs \<and> t = strip (join '' '' segs)"
proof -
  from assms obtain model wv rec0 rec1 s5 wv' rec2 res s6 out rec3 v tf joined
    where pe: "path_exists w (MODEL_PATH w)" 
      and m: "Model w (MODEL_PATH w) = Inr model"
      and wo: "wave_open w p = Inr wv"
      and mono: "nchannels wv = 1"
      and kr: "KaldiRecognizer w model (framerate wv) = Inr rec0"
      and sw: "SetWords w rec0 True = Inr rec1"
      and rl: "read_loop w wv rec1 [] s5 = (Inr (wv', rec2, res), s6)"
      and fr: "FinalResult w rec2 = Inr (out, rec3)"
      and js: "json_loads w out = Inr v"
      and g: "py_get v ''text'' = Inr tf"
      and j: "py_join '' '' (if truthy tf then res @ [tf] else res) = Inr joined"
      and t: "t = strip joined"
    by (auto simp: transcribe_try_def py_defs getitem_after_get split: if_splits sum.splits prod.splits)
  have f: "fault wv = None"
  proof (cases "fault wv")
    case (Some e)
    from read_loop_fault[OF Some, of w rec1 "[]" s5] rl show ?thesis by simp
  qed
  from j obtain ss where ss: "strs (if truthy tf then res @ [tf] else res) = Some ss"
    and joined: "joined = join '' '' ss"
    by (auto simp: py_join_strs)
  from ss obtain segs1 seg where segs1: "strs res = Some segs1"
    and seg: "(if truthy tf then strs [tf] else Some []) = Some seg"
    and ss_eq: "ss = segs1 @ seg"
    by (auto simp: strs_append split: if_splits option.splits)
  from read_loop_accum[OF rl f] mono segs1
  have feed: "spec_feed w rec1 (chunks_of (4000 * sampwidth wv) (frames wv)) = Some (segs1, rec2)"
    by (simp add: accum_rel_def)
  from js g seg have "recognized_text w out = Some seg"
    by (simp add: recognized_text_eq)
  with pe m wo mono f kr sw feed fr have "spec_segments w p = Some (segs1 @ seg)"
    by (simp add: spec_segments_def)
  with t joined ss_eq show ?thesis by simp
qed

lemma segments_success:
  assumes "spec_segments w p = Some segs"
  shows "fst (transcribe_try w p s) =
           Inr [(''success'', JBool True), (''text'', JStr (strip (join '' '' segs)))]"
proof -
  from assms obtain model wv rec0 rec1 segs1 rec2 out rec3 seg
    where pe: "path_exists w (MODEL_PATH w)" 
      and m: "Model w (MODEL_PATH w) = Inr model"
      and wo: "wave_open w p = Inr wv"
      and mono: "nchannels wv = 1"
      and f: "fault wv = None"
      and kr: "KaldiRecognizer w model (framerate wv) = Inr rec0"
      and sw: "SetWords w rec0 True = Inr rec1"
      and feed: "spec_feed w rec1 (chunks_of (4000 * sampwidth wv) (frames wv)) = Some (segs1, rec2)"
      and fr: "FinalResult w rec2 = Inr (out, rec3)"
      and rt: "recognized_text w out = Some seg"
      and segs: "segs = segs1 @ seg"
    by (auto simp: spec_segments_def split: if_splits sum.splits prod.splits option.splits)
  from rt obtain v tf where js: "json_loads w out = Inr v" and g: "py_get v ''text'' = Inr tf"
    and seg: "(if truthy tf then strs [tf] else Some []) = Some seg"
    by (auto simp: recognized_text_eq split: sum.splits)
  have loop: "\<exists>wv' res. r = Inr (wv', rec2, res) \<and> strs res = Some segs1"
    if rl: "read_loop w wv rec1 [] s5 = (r, s6)" for s5 r s6
  proof -
    from read_loop_accum[OF rl f] mono feed have "accum_rel [] (Some (segs1, rec2)) r"
      by simp
    then show ?thesis
      by (cases r) (auto simp: accum_rel_def map_option_case split: option.splits)
  qed
  have fin: "strs (if truthy tf then res @ [tf] else res) = Some segs" if "strs res = Some segs1" for res
    using that seg segs by (auto simp: strs_append split: if_splits)
  have J: "py_join '' '' (if truthy tf then res @ [tf] else res) = Inr (join '' '' segs)"
    if "strs res = Some segs1" for res
    using fin[OF that] by (simp add: py_join_strs)
  show ?thesis
  proof (cases "truthy tf")
    case True
    with J have J': "py_join '' '' (res @ [tf]) = Inr (join '' '' segs)"
      if "strs res = Some segs1" for res
      using that by simp
    from g True have gi: "py_getitem v ''text'' = Inr tf"
      by (rule getitem_after_get)
    show ?thesis
      using pe m wo mono kr sw fr js g gi True
      by (auto simp: transcribe_try_def py_defs J' split: prod.splits sum.splits dest!: loop)
  next
    case False
    with J have J': "py_join '' '' res = Inr (join '' '' segs)"
      if "strs res = Some segs1" for res
      using that by simp
    show ?thesis
      using pe m wo mono kr sw fr js g False
      by (auto simp: transcribe_try_def py_defs J' split: prod.splits sum.splits dest!: loop)
  qed
qed

section \<open>Claims\<close>

text \<open>
  Claim C1. For every environment and every input path, \<open>transcribe_audio\<close> returns a
  result and raises nothing; when an exception leaves the body of its \<^verbatim>\<open>try\<close>
  statement, the result it returns is the failure result whose \<^verbatim>\<open>error\<close> is the text of
  that exception; and no run of the script ends with an uncaught exception. (The
  function is total: the read loop terminates on every file.)
\<close>
theorem transcribe_audio_never_raises:
  "(\<exists>d. fst (transcribe_audio w p s) = Inr d) \<and>
   (\<forall>e. fst (transcribe_try w p s) = Inl e \<longrightarrow>
      fst (transcribe_audio w p s) =
        Inr [(''success'', JBool False), (''error'', JStr (str_of e))]) \<and>
   (\<exists>status. fst (main w argv s) = Inr status)"
proof (intro conjI)
  show "\<exists>d. fst (transcribe_audio w p s) = Inr d"
    using transcribe_audio_returns[of w p s] by auto
  show "\<forall>e. fst (transcribe_try w p s) = Inl e \<longrightarrow>
      fst (transcribe_audio w p s) =
        Inr [(''success'', JBool False), (''error'', JStr (str_of e))]"
    by (auto simp: transcribe_audio_def try_except_def ret_def split: prod.splits sum.splits)
  show "\<exists>status. fst (main w argv s) = Inr status"
    using main_returns[of w argv s] by auto
qed

theorem transcribe_audio_never_raises_witness:
  "fst (transcribe_try demo_world ''noise.bin'' init) = Inl (Exception ''file does not start with RIFF id'') \<and>
   fst (transcribe_audio demo_world ''noise.bin'' init) =
     Inr [(''success'', JBool False), (''error'', JStr ''file does not start with RIFF id'')]"
  using transcribe_audio_never_raises[of demo_world "''noise.bin''" init "[]"]
  by (simp add: py_defs demo_defs run_defs)

text \<open>
  Claim C2. Every result \<open>transcribe_audio\<close> returns satisfies the shape invariant, and
  every run of the command line prints exactly one line, the JSON text of a result that
  satisfies it.
\<close>
theorem results_well_shaped:
  "(\<exists>d. fst (transcribe_audio w p s) = Inr d \<and> shape_ok d) \<and>
   (\<exists>d. shape_ok d \<and> stdout (snd (main w argv s)) = stdout s @ [json_dumps d])"
proof
  show "\<exists>d. fst (transcribe_audio w p s) = Inr d \<and> shape_ok d"
    using transcribe_audio_returns[of w p s] transcribe_audio_shape[of w p s] by auto
next
  show "\<exists>d. shape_ok d \<and> stdout (snd (main w argv s)) = stdout s @ [json_dumps d]"
  proof (cases "length argv \<noteq> 2")
    case True
    then have "stdout (snd (main w argv s)) = stdout s @ [json_dumps [(''success'', JBool False), (''error'', JStr ''Usage: stt.py <audio_file>'')]]"
      by (simp add: main_def bnd_def print_def ret_def)
    moreover have "shape_ok [(''success'', JBool False), (''error'', JStr ''Usage: stt.py <audio_file>'')]"
      by (simp add: shape_ok_def has_key_def)
    ultimately show ?thesis by blast
  next
    case two: False
    show ?thesis
    proof (cases "path_exists w (argv ! 1)")
      case False
      with two have "stdout (snd (main w argv s)) = stdout s @ [json_dumps [(''success'', JBool False), (''error'', JStr (''File not found: '' @ argv ! 1))]]"
        by (simp add: main_def bnd_def print_def ret_def call_def Let_def)
      moreover have "shape_ok [(''success'', JBool False), (''error'', JStr (''File not found: '' @ argv ! 1))]"
        by (simp add: shape_ok_def has_key_def)
      ultimately show ?thesis by blast
    next
      case True
      define s1 where "s1 = s\<lparr>calls := calls s @ [Exists (argv ! 1)]\<rparr>"
      obtain d s2 where run: "transcribe_audio w (argv ! 1) s1 = (Inr d, s2)"
        using transcribe_audio_returns by blast
      have "shape_ok d" using transcribe_audio_shape[of w "argv ! 1" s1 d] run by simp
      moreover have "stdout s2 = stdout s" using transcribe_audio_stdout[of w "argv ! 1" s1] run by (simp add: s1_def)
      moreover have "main w argv s = (Inr 0, s2\<lparr>stdout := stdout s2 @ [json_dumps d]\<rparr>)"
        using two True run by (simp add: main_def bnd_def print_def ret_def call_def Let_def s1_def)
      ultimately show ?thesis by auto
    qed
  qed
qed

text \<open>
  Claim C4. When the model directory does not exist at \<open>MODEL_PATH\<close>, \<open>transcribe_audio\<close>
  returns the failure result \<^verbatim>\<open>Vosk model not found\<close>, whatever the audio path is.
\<close>
theorem model_missing_result:
  "\<not> path_exists w (MODEL_PATH w) \<Longrightarrow>
   fst (transcribe_audio w p s) =
     Inr [(''success'', JBool False), (''error'', JStr ''Vosk model not found'')]"
  by (simp add: transcribe_audio_def transcribe_try_def try_except_def bnd_def call_def ret_def)

theorem model_missing_result_witness:
  "\<not> path_exists no_model_world (MODEL_PATH no_model_world) \<and>
   fst (transcribe_audio no_model_world ''speech.wav'' init) =
     Inr [(''success'', JBool False), (''error'', JStr ''Vosk model not found'')]"
  using model_missing_result[of no_model_world "''speech.wav''" init]
  by (simp add: demo_defs)

text \<open>
  Claim C10. When the model directory is missing, the only call \<open>transcribe_audio\<close>
  makes into the environment is the existence test on \<open>MODEL_PATH\<close>: the audio file is
  neither opened nor read, no handle is acquired, and the result is the model-not-found
  failure, whatever the audio path names.
\<close>
theorem model_check_precedes_open:
  "\<not> path_exists w (MODEL_PATH w) \<Longrightarrow>
   transcribe_audio w p s =
     (Inr [(''success'', JBool False), (''error'', JStr ''Vosk model not found'')],
      s\<lparr>calls := calls s @ [Exists (MODEL_PATH w)]\<rparr>)"
  by (simp add: transcribe_audio_def transcribe_try_def try_except_def bnd_def call_def ret_def)

theorem model_check_precedes_open_witness:
  "\<not> path_exists no_model_world (MODEL_PATH no_model_world) \<and>
   wave_open no_model_world ''noise.bin'' = Inl (Exception ''file does not start with RIFF id'') \<and>
   transcribe_audio no_model_world ''noise.bin'' init =
     (Inr [(''success'', JBool False), (''error'', JStr ''Vosk model not found'')],
      \<lparr>calls = [Exists ''/home/pi/.local/share/vosk/vosk-model-small-en-us-0.15''],
       held = [], stdout = []\<rparr>)"
  using model_check_precedes_open[of no_model_world "''noise.bin''" init]
  by (simp add: demo_defs)

text \<open>
  Claim C8. With no argument or with more than one argument after the program name, the
  script prints the usage failure and exits with status 1, having called nothing else.
\<close>
theorem usage_error:
  "length args \<noteq> 1 \<Longrightarrow>
   main w (prog # args) s =
     (Inr 1, s\<lparr>stdout := stdout s @
        [''{\"success\": false, \"error\": \"Usage: stt.py <audio_file>\"}'']\<rparr>)"
  by (simp add: main_def bnd_def print_def ret_def json_dumps_def dumps_str_def escape_char_def)

theorem usage_error_witness:
  "length ([] :: string list) \<noteq> 1 \<and> length [''a.wav'', ''b.wav''] \<noteq> 1 \<and>
   main demo_world [''stt.py''] init =
     (Inr 1, \<lparr>calls = [], held = [],
        stdout = [''{\"success\": false, \"error\": \"Usage: stt.py <audio_file>\"}'']\<rparr>) \<and>
   main demo_world [''stt.py'', ''a.wav'', ''b.wav''] init =
     (Inr 1, \<lparr>calls = [], held = [],
        stdout = [''{\"success\": false, \"error\": \"Usage: stt.py <audio_file>\"}'']\<rparr>)"
  using usage_error[of "[]" demo_world "''stt.py''" init]
    usage_error[of "[''a.wav'', ''b.wav'']" demo_world "''stt.py''" init]
  by (simp add: init_def)

text \<open>
  Claim C9. With exactly one argument naming a path that does not exist, the script
  prints the JSON text of the failure result \<^verbatim>\<open>File not found: <path>\<close> and exits with
  status 1; its only call into the environment is the existence test on that path, so
  \<open>transcribe_audio\<close> is not run.
\<close>
theorem file_not_found:
  "\<not> path_exists w p \<Longrightarrow>
   main w [prog, p] s =
     (Inr 1, s\<lparr>calls := calls s @ [Exists p],
        stdout := stdout s @
          [json_dumps [(''success'', JBool False), (''error'', JStr (''File not found: '' @ p))]]\<rparr>)"
  by (simp add: main_def bnd_def print_def ret_def call_def Let_def)

theorem file_not_found_witness:
  "\<not> path_exists demo_world ''missing.wav'' \<and>
   main demo_world [''stt.py'', ''missing.wav''] init =
     (Inr 1, \<lparr>calls = [Exists ''missing.wav''], held = [],
        stdout = [''{\"success\": false, \"error\": \"File not found: missing.wav\"}'']\<rparr>)"
  using file_not_found[of demo_world "''missing.wav''" "''stt.py''" init]
  by (simp add: demo_defs json_dumps_def dumps_str_def escape_char_def)

text \<open>
  Claim C7. With exactly one argument naming an existing path, the script runs
  \<open>transcribe_audio\<close> on it, prints the JSON text of the result it returns, and exits
  with status 0, whether that result is a success or a failure.
\<close>
theorem existing_file_exit_zero:
  "path_exists w p \<Longrightarrow>
   \<exists>d s'. transcribe_audio w p (s\<lparr>calls := calls s @ [Exists p]\<rparr>) = (Inr d, s') \<and>
          main w [prog, p] s = (Inr 0, s'\<lparr>stdout := stdout s' @ [json_dumps d]\<rparr>)"
proof -
  assume ex: "path_exists w p"
  obtain d s' where run: "transcribe_audio w p (s\<lparr>calls := calls s @ [Exists p]\<rparr>) = (Inr d, s')"
    using transcribe_audio_returns by blast
  with ex have "main w [prog, p] s = (Inr 0, s'\<lparr>stdout := stdout s' @ [json_dumps d]\<rparr>)"
    by (simp add: main_def bnd_def print_def ret_def call_def Let_def)
  with run show ?thesis by blast
qed

theorem existing_file_exit_zero_witness:
  "path_exists demo_world ''speech.wav'' \<and> path_exists demo_world ''stereo.wav'' \<and>
   fst (main demo_world [''stt.py'', ''speech.wav''] init) = Inr 0 \<and>
   stdout (snd (main demo_world [''stt.py'', ''speech.wav''] init)) =
     [''{\"success\": true, \"text\": \"hello world\"}''] \<and>
   fst (main demo_world [''stt.py'', ''stereo.wav''] init) = Inr 0 \<and>
   stdout (snd (main demo_world [''stt.py'', ''stereo.wav''] init)) =
     [''{\"success\": false, \"error\": \"Audio must be mono\"}'']"
  using existing_file_exit_zero[of demo_world "''speech.wav''" init "''stt.py''"]
    existing_file_exit_zero[of demo_world "''stereo.wav''" init "''stt.py''"]
  by (simp add: py_defs demo_defs run_defs read_loop.simps)

text \<open>
  Claim C5, as amended. When the model directory exists \<^emph>\<open>and the model loads\<close>, and the
  audio file opens as a WAV file whose header gives a channel count other than 1,
  \<open>transcribe_audio\<close> returns the failure result \<^verbatim>\<open>Audio must be mono\<close>; it has then made
  four calls (the existence test, the model, \<^verbatim>\<open>wave.open\<close>, \<^verbatim>\<open>getnchannels\<close>) and has
  read no frame and built no recogniser.
\<close>
theorem non_mono_rejected:
  "path_exists w (MODEL_PATH w) \<Longrightarrow> Model w (MODEL_PATH w) = Inr model \<Longrightarrow>
   wave_open w p = Inr wv \<Longrightarrow> nchannels wv \<noteq> 1 \<Longrightarrow>
   fst (transcribe_audio w p s) =
     Inr [(''success'', JBool False), (''error'', JStr ''Audio must be mono'')] \<and>
   calls (snd (transcribe_audio w p s)) =
     calls s @ [Exists (MODEL_PATH w), ModelNew (MODEL_PATH w), WaveOpen p, GetNChannels]"
  by (simp add: transcribe_audio_def transcribe_try_def py_defs)

theorem non_mono_rejected_witness:
  "path_exists demo_world (MODEL_PATH demo_world) \<and>
   Model demo_world (MODEL_PATH demo_world) = Inr () \<and>
   wave_open demo_world ''stereo.wav'' = Inr (demo_wave 2 (replicate 12000 0)) \<and>
   nchannels (demo_wave 2 (replicate 12000 0)) \<noteq> 1 \<and>
   fst (transcribe_audio demo_world ''stereo.wav'' init) =
     Inr [(''success'', JBool False), (''error'', JStr ''Audio must be mono'')] \<and>
   calls (snd (transcribe_audio demo_world ''stereo.wav'' init)) =
     [Exists ''/home/pi/.local/share/vosk/vosk-model-small-en-us-0.15'',
      ModelNew ''/home/pi/.local/share/vosk/vosk-model-small-en-us-0.15'',
      WaveOpen ''stereo.wav'', GetNChannels]"
  using non_mono_rejected[of demo_world "()" "''stereo.wav''" "demo_wave 2 (replicate 12000 0)" init]
  by (simp add: demo_defs)

text \<open>
  As stated, with only the existence of the model directory assumed, the claim fails: a
  directory that exists but does not load makes \<^verbatim>\<open>Model(MODEL_PATH)\<close> (line 21) raise
  before the audio file is opened, and the result carries that exception's text.
\<close>
theorem non_mono_counterexample:
  "path_exists bad_model_world (MODEL_PATH bad_model_world) \<and>
   wave_open bad_model_world ''stereo.wav'' = Inr (demo_wave 2 (replicate 12000 0)) \<and>
   nchannels (demo_wave 2 (replicate 12000 0)) \<noteq> 1 \<and>
   fst (transcribe_audio bad_model_world ''stereo.wav'' init) =
     Inr [(''success'', JBool False), (''error'', JStr ''Failed to create a model'')] \<and>
   fst (transcribe_audio bad_model_world ''stereo.wav'' init) \<noteq>
     Inr [(''success'', JBool False), (''error'', JStr ''Audio must be mono'')]"
  by (simp add: bad_model_world_def py_defs demo_defs run_defs)


text \<open>
  Claim C6. \<open>transcribe_audio\<close> returns the success result with text \<open>t\<close> exactly when
  the steps of the specification all succeed and \<open>t\<close> is their segments (the non-empty
  texts of the partial results, in recognition order, then that of the final flush)
  joined with single spaces and stripped. In particular, when every step succeeds and no
  segment is recognised, the result is the success result with the empty text.
\<close>
theorem transcript_is_joined_segments:
  "(fst (transcribe_audio w p s) = Inr [(''success'', JBool True), (''text'', JStr t)] \<longleftrightarrow>
      (\<exists>segs. spec_segments w p = Some segs \<and> t = strip (join '' '' segs))) \<and>
   (spec_segments w p = Some [] \<longrightarrow>
      fst (transcribe_audio w p s) = Inr [(''success'', JBool True), (''text'', JStr [])])"
proof -
  have audio: "fst (transcribe_audio w p s) = Inr [(''success'', JBool True), (''text'', JStr u)] \<longleftrightarrow>
      fst (transcribe_try w p s) = Inr [(''success'', JBool True), (''text'', JStr u)]" for u
    by (auto simp: transcribe_audio_def try_except_def ret_def split: prod.splits sum.splits)
  have only_if: "\<exists>segs. spec_segments w p = Some segs \<and> t = strip (join '' '' segs)"
    if "fst (transcribe_try w p s) = Inr [(''success'', JBool True), (''text'', JStr t)]"
    using that success_segments[of w p s t "snd (transcribe_try w p s)"]
    by (cases "transcribe_try w p s") simp
  have if_part: "fst (transcribe_try w p s) =
      Inr [(''success'', JBool True), (''text'', JStr (strip (join '' '' segs)))]"
    if "spec_segments w p = Some segs" for segs
    using that by (rule segments_success)
  have silent: "strip (join '' '' []) = []"
    by (simp add: strip_def)
  from only_if if_part silent show ?thesis
    unfolding audio by (metis)
qed

theorem transcript_is_joined_segments_witness:
  "spec_segments demo_world ''speech.wav'' = Some [''hello'', ''world''] \<and>
   fst (transcribe_audio demo_world ''speech.wav'' init) =
     Inr [(''success'', JBool True), (''text'', JStr ''hello world'')] \<and>
   spec_segments demo_world ''silence.wav'' = Some [] \<and>
   fst (transcribe_audio demo_world ''silence.wav'' init) =
     Inr [(''success'', JBool True), (''text'', JStr [])]"
  using transcript_is_joined_segments[of demo_world "''speech.wav''" init "''hello world''"]
    transcript_is_joined_segments[of demo_world "''silence.wav''" init "[]"]
  by (simp add: py_defs demo_defs run_defs read_loop.simps spec_segments_def chunks_of_unfold
        recognized_text_def)

end
